theory Spec2Isabelle
  imports Main "HOL-Library.AList"
begin

section \<open>The worker dispatch loop of \<^verbatim>\<open>routes/workers.py\<close>\<close>

text \<open>
  The module handles one websocket connection of an inference worker. This theory embeds
  \<^verbatim>\<open>get_work_request_container\<close>, \<^verbatim>\<open>initiate_work_for_message\<close>, the four response
  handlers and \<^verbatim>\<open>handle_worker\<close> from its \<^verbatim>\<open>try\<close> statement on. Calls of the logger are
  left out; every other call that leaves the module (message store, queues, websocket,
  session registry, futures) is a \<open>call\<close> whose outcome the environment decides.
\<close>

subsection \<open>Exceptions\<close>

text \<open>
  \<open>TypeError\<close> is what \<^verbatim>\<open>WorkerDisconnectException("Worker disconnected")\<close> raises: the
  class's \<^verbatim>\<open>__init__\<close> takes no argument. \<open>ValueError\<close> is \<^verbatim>\<open>asyncio.wait\<close> on an empty
  set, \<open>KeyError\<close> a \<^verbatim>\<open>del\<close> of an absent key, \<open>UnboundLocalError\<close> a read of a local name
  that an \<^verbatim>\<open>except ... as\<close> clause has unbound. \<open>CollaboratorError\<close> stands for any
  exception of class \<^verbatim>\<open>Exception\<close> raised by a called collaborator. \<open>CancelledError\<close> is
  the one exception here that derives from \<^verbatim>\<open>BaseException\<close> only, so that
  \<^verbatim>\<open>except Exception\<close> does not catch it.
\<close>

datatype exn =
    TypeError
  | ValueError
  | KeyError
  | UnboundLocalError
  | RuntimeError string
  | WorkRequestNotFound "string option"
  | CollaboratorError string
  | CancelledError

fun is_Exception :: "exn \<Rightarrow> bool" where
  "is_Exception CancelledError = False"
| "is_Exception _ = True"

subsection \<open>Data\<close>

record WorkRequest =
  work_request_id :: string

record WorkRequestContainer =
  work_request :: WorkRequest
  message_id :: string
  start_time :: nat
  num_responses :: int

type_synonym WorkRequestContainerMap = "(string \<times> WorkRequestContainer) list"

text \<open>
  A worker response, with the fields the module reads from any of its classes; the
  \<^verbatim>\<open>cast\<close> calls do nothing at run time.
\<close>

record WorkerResponse =
  response_type :: string
  request_id :: "string option"
  metrics :: string
  text_of :: string
  error :: string

record WorkerConfig =
  max_parallel_requests :: int

datatype future = Dequeue | Receive

text \<open>What completed futures hold: \<^verbatim>\<open>ftr.result()\<close> returns it, or raises.\<close>

datatype result =
    ResultNone
  | ResultTuple string string
  | ResultResponse WorkerResponse
  | ResultRaises exn

subsection \<open>Calls to collaborators\<close>

datatype reason = StrOfException exn | StrOfError string

datatype packet = ResponseJson WorkerResponse | InternalFinishedMessageResponse string

datatype call =
    AddWorkerConnectEvent
  | StoreWorkerSession int "string option"
  | StartWork string
  | BuildWorkRequest string
  | SendWorkRequest string
  | SendPing
  | ResetWork string
  | WorkQueueEnqueue string
  | MessageQueueEnqueue string packet
  | CompleteWork string string
  | AbortWork string reason
  | RedisClose
  | DeleteWorkerSession
  | Cancel future
  | WebsocketClose

type_synonym history = "(call \<times> exn option) list"

text \<open>
  The environment: whether a call raises, given everything called so far; the id that
  \<^verbatim>\<open>build_work_request\<close> gives the next work request; the clock.
\<close>

record env =
  raises :: "history \<Rightarrow> call \<Rightarrow> exn option"
  new_request_id :: "history \<Rightarrow> string"
  utcnow :: "history \<Rightarrow> nat"

record state =
  work_request_map :: WorkRequestContainerMap
  pending_futures :: "future list"
  requests_in_flight :: int
  session_metrics :: "string option"
  trace :: history

definition perform :: "env \<Rightarrow> call \<Rightarrow> state \<Rightarrow> exn option \<times> state" where
  "perform env c s =
     (raises env (trace s) c, s\<lparr>trace := trace s @ [(c, raises env (trace s) c)]\<rparr>)"

subsection \<open>The in-flight ledger\<close>

definition get_work_request_container ::
  "WorkRequestContainerMap \<Rightarrow> string option
     \<Rightarrow> (exn + WorkRequestContainer) \<times> WorkRequestContainerMap" where
  "get_work_request_container m rid =
     (case rid of
        None \<Rightarrow> (Inl (WorkRequestNotFound rid), m)
      | Some r \<Rightarrow>
          (case map_of m r of
             None \<Rightarrow> (Inl (WorkRequestNotFound rid), m)
           | Some container \<Rightarrow> (Inr container, m)))"

text \<open>\<^verbatim>\<open>container.num_responses += 1\<close> on the container stored under the key.\<close>

definition increment_num_responses ::
  "string option \<Rightarrow> WorkRequestContainerMap \<Rightarrow> WorkRequestContainerMap" where
  "increment_num_responses rid m =
     map (\<lambda>(k, c). if Some k = rid then (k, c\<lparr>num_responses := num_responses c + 1\<rparr>)
                   else (k, c)) m"

text \<open>\<^verbatim>\<open>del work_request_map[request_id]\<close>.\<close>

definition del_item ::
  "string option \<Rightarrow> WorkRequestContainerMap \<Rightarrow> exn + WorkRequestContainerMap" where
  "del_item rid m =
     (case rid of
        None \<Rightarrow> Inl KeyError
      | Some r \<Rightarrow> (if map_of m r = None then Inl KeyError else Inr (AList.delete r m)))"

subsection \<open>The response handlers\<close>

text \<open>
  The closure \<^verbatim>\<open>_update_session\<close> of \<^verbatim>\<open>handle_worker\<close>: it copies the size of the
  ledger and the metrics into the session and stores it.
\<close>

definition update_session :: "env \<Rightarrow> string \<Rightarrow> state \<Rightarrow> exn option \<times> state" where
  "update_session env m s =
     perform env (StoreWorkerSession (int (length (work_request_map s))) (Some m))
       (s\<lparr>requests_in_flight := int (length (work_request_map s)),
          session_metrics := Some m\<rparr>)"

definition handle_token_response ::
  "env \<Rightarrow> WorkerResponse \<Rightarrow> state \<Rightarrow> exn option \<times> state" where
  "handle_token_response env response s =
     (case get_work_request_container (work_request_map s) (request_id response) of
        (Inl e, m) \<Rightarrow> (Some e, s\<lparr>work_request_map := m\<rparr>)
      | (Inr container, m) \<Rightarrow>
          (case perform env
                  (MessageQueueEnqueue (message_id container) (ResponseJson response))
                  (s\<lparr>work_request_map := m\<rparr>) of
             (Some e, s1) \<Rightarrow> (Some e, s1)
           | (None, s1) \<Rightarrow>
               (None, s1\<lparr>work_request_map :=
                  increment_num_responses (request_id response) (work_request_map s1)\<rparr>)))"

definition handle_generated_text_response ::
  "env \<Rightarrow> WorkerResponse \<Rightarrow> state \<Rightarrow> exn option \<times> state" where
  "handle_generated_text_response env response s =
     (case get_work_request_container (work_request_map s) (request_id response) of
        (Inl e, m) \<Rightarrow> (Some e, s\<lparr>work_request_map := m\<rparr>)
      | (Inr container, m) \<Rightarrow>
          (case perform env (CompleteWork (message_id container) (text_of response))
                  (s\<lparr>work_request_map := m\<rparr>) of
             (Some e, s1) \<Rightarrow> (Some e, s1)
           | (None, s1) \<Rightarrow>
               (case perform env
                       (MessageQueueEnqueue (message_id container)
                          (InternalFinishedMessageResponse (message_id container))) s1 of
                  (Some e, s2) \<Rightarrow> (Some e, s2)
                | (None, s2) \<Rightarrow>
                    (case del_item (request_id response) (work_request_map s2) of
                       Inl e \<Rightarrow> (Some e, s2)
                     | Inr m' \<Rightarrow> (None, s2\<lparr>work_request_map := m'\<rparr>)))))"

definition handle_error_response ::
  "env \<Rightarrow> WorkerResponse \<Rightarrow> state \<Rightarrow> exn option \<times> state" where
  "handle_error_response env response s =
     (case get_work_request_container (work_request_map s) (request_id response) of
        (Inl e, m) \<Rightarrow> (Some e, s\<lparr>work_request_map := m\<rparr>)
      | (Inr container, m) \<Rightarrow>
          (case perform env (AbortWork (message_id container) (StrOfError (error response)))
                  (s\<lparr>work_request_map := m\<rparr>) of
             (Some e, s1) \<Rightarrow> (Some e, s1)
           | (None, s1) \<Rightarrow>
               (case del_item (request_id response) (work_request_map s1) of
                  Inl e \<Rightarrow> (Some e, s1)
                | Inr m' \<Rightarrow> (None, s1\<lparr>work_request_map := m'\<rparr>))))"

text \<open>\<^verbatim>\<open>handle_general_error_response\<close> only logs.\<close>

definition handle_general_error_response ::
  "WorkerResponse \<Rightarrow> state \<Rightarrow> exn option \<times> state" where
  "handle_general_error_response response s = (None, s)"

text \<open>The \<^verbatim>\<open>match worker_response.response_type\<close> statement of the loop.\<close>

definition route_response :: "env \<Rightarrow> WorkerResponse \<Rightarrow> state \<Rightarrow> exn option \<times> state" where
  "route_response env response s =
     (if response_type response = ''pong'' then
        update_session env (metrics response) s
      else if response_type response = ''token'' then
        handle_token_response env response s
      else if response_type response = ''generated_text'' then
        (case handle_generated_text_response env response s of
           (Some e, s1) \<Rightarrow> (Some e, s1)
         | (None, s1) \<Rightarrow> update_session env (metrics response) s1)
      else if response_type response = ''error'' then
        (case handle_error_response env response s of
           (Some e, s1) \<Rightarrow> (Some e, s1)
         | (None, s1) \<Rightarrow> update_session env (metrics response) s1)
      else if response_type response = ''general_error'' then
        (case handle_general_error_response response s of
           (Some e, s1) \<Rightarrow> (Some e, s1)
         | (None, s1) \<Rightarrow> update_session env (metrics response) s1)
      else
        (Some (RuntimeError (''Unknown response type: '' @ response_type response)), s))"

subsection \<open>Dispatching a queue item\<close>

text \<open>
  \<^verbatim>\<open>initiate_work_for_message\<close>. Its \<^verbatim>\<open>except Exception\<close> around the send catches
  exceptions of class \<^verbatim>\<open>Exception\<close> only; the rollback and the re-enqueue in it are plain
  statements, so an exception of theirs replaces the one being handled.
\<close>

definition initiate_work_for_message ::
  "env \<Rightarrow> string \<Rightarrow> state \<Rightarrow> (exn + WorkRequest) \<times> state" where
  "initiate_work_for_message env mid s =
     (case perform env (StartWork mid) s of
        (Some e, s1) \<Rightarrow> (Inl e, s1)
      | (None, s1) \<Rightarrow>
          (case perform env (BuildWorkRequest mid) s1 of
             (Some e, s2) \<Rightarrow> (Inl e, s2)
           | (None, s2) \<Rightarrow>
               (case perform env (SendWorkRequest (new_request_id env (trace s2))) s2 of
                  (None, s3) \<Rightarrow>
                    (Inr \<lparr>work_request_id = new_request_id env (trace s2)\<rparr>, s3)
                | (Some e, s3) \<Rightarrow>
                    (if is_Exception e then
                       (case perform env (ResetWork mid) s3 of
                          (Some e', s4) \<Rightarrow> (Inl e', s4)
                        | (None, s4) \<Rightarrow>
                            (case perform env (WorkQueueEnqueue mid) s4 of
                               (Some e', s5) \<Rightarrow> (Inl e', s5)
                             | (None, s5) \<Rightarrow> (Inl e, s5)))
                     else (Inl e, s3)))))"

subsection \<open>The loop\<close>

text \<open>The closures \<^verbatim>\<open>_add_dequeue\<close> and \<^verbatim>\<open>_add_receive\<close>.\<close>

definition add_dequeue :: "WorkerConfig \<Rightarrow> state \<Rightarrow> state" where
  "add_dequeue cfg s =
     (if int (length (work_request_map s)) < max_parallel_requests cfg
      then s\<lparr>pending_futures := pending_futures s @ [Dequeue]\<rparr> else s)"

definition add_receive :: "state \<Rightarrow> state" where
  "add_receive s = s\<lparr>pending_futures := pending_futures s @ [Receive]\<rparr>"

text \<open>
  The body of \<^verbatim>\<open>for ftr in done\<close> for one future. Each \<^verbatim>\<open>finally\<close> clause runs
  whether its \<^verbatim>\<open>try\<close> block raised or not.
\<close>

definition process_result ::
  "env \<Rightarrow> WorkerConfig \<Rightarrow> result \<Rightarrow> state \<Rightarrow> exn option \<times> state" where
  "process_result env cfg r s =
     (case r of
        ResultRaises e \<Rightarrow> (Some e, s)
      | ResultNone \<Rightarrow>
          (Some (RuntimeError ''Received None from queue. This should never happen.''), s)
      | ResultTuple q mid \<Rightarrow>
          (case initiate_work_for_message env mid s of
             (Inl e, s1) \<Rightarrow> (Some e, add_dequeue cfg s1)
           | (Inr wr, s1) \<Rightarrow>
               (None, add_dequeue cfg
                  (s1\<lparr>work_request_map :=
                     AList.update (work_request_id wr)
                       \<lparr>work_request = wr, message_id = mid,
                        start_time = utcnow env (trace s1), num_responses = 0\<rparr>
                       (work_request_map s1)\<rparr>)))
      | ResultResponse response \<Rightarrow>
          (case route_response env response s of
             (r', s1) \<Rightarrow>
               (r', add_receive
                      (if length (pending_futures s1) = 0 then add_dequeue cfg s1 else s1))))"

fun process_done ::
  "env \<Rightarrow> WorkerConfig \<Rightarrow> result list \<Rightarrow> state \<Rightarrow> exn option \<times> state" where
  "process_done env cfg [] s = (None, s)"
| "process_done env cfg (r # rs) s =
     (case process_result env cfg r s of
        (Some e, s1) \<Rightarrow> (Some e, s1)
      | (None, s1) \<Rightarrow> process_done env cfg rs s1)"

text \<open>
  One iteration of \<^verbatim>\<open>while True\<close>, given what the environment does in it: the
  websocket is seen disconnected, or \<^verbatim>\<open>asyncio.wait\<close> raises (a cancellation arrives
  there), or it returns the completed futures, listed in the order in which the
  \<^verbatim>\<open>for\<close> statement visits the set \<^verbatim>\<open>done\<close>. The new \<^verbatim>\<open>pending_futures\<close> is the old one
  without the completed futures. An empty \<^verbatim>\<open>done\<close> is the timeout.
\<close>

datatype cycle =
    ClientDisconnected
  | WaitRaises exn
  | WaitReturns "(future \<times> result) list"

definition loop_body ::
  "env \<Rightarrow> WorkerConfig \<Rightarrow> cycle \<Rightarrow> state \<Rightarrow> exn option \<times> state" where
  "loop_body env cfg c s =
     (case c of
        ClientDisconnected \<Rightarrow> (Some TypeError, s)
      | WaitRaises e \<Rightarrow> (Some e, s)
      | WaitReturns done \<Rightarrow>
          (if pending_futures s = [] then (Some ValueError, s)
           else
             (case process_done env cfg (map snd done)
                     (s\<lparr>pending_futures := fold remove1 (map fst done) (pending_futures s)\<rparr>) of
                (Some e, s1) \<Rightarrow> (Some e, s1)
              | (None, s1) \<Rightarrow> (if done = [] then perform env SendPing s1 else (None, s1)))))"

text \<open>
  The loop never leaves by itself. It runs as long as the environment supplies cycles;
  \<open>None\<close> says that it is still running after them.
\<close>

fun loop :: "env \<Rightarrow> WorkerConfig \<Rightarrow> cycle list \<Rightarrow> state \<Rightarrow> exn option \<times> state" where
  "loop env cfg [] s = (None, s)"
| "loop env cfg (c # cs) s =
     (case loop_body env cfg c s of
        (Some e, s1) \<Rightarrow> (Some e, s1)
      | (None, s1) \<Rightarrow> loop env cfg cs s1)"

subsection \<open>Termination: recovery and cleanup\<close>

text \<open>
  One iteration of the recovery loop of the \<^verbatim>\<open>except Exception as e\<close> clause. The
  second argument is what the name \<^verbatim>\<open>e\<close> is bound to: the inner
  \<^verbatim>\<open>except Exception as e\<close> binds the same name and unbinds it when it is left, so after
  the first failed recovery \<^verbatim>\<open>str(e)\<close> raises \<open>UnboundLocalError\<close>, which the inner
  clause catches in turn. The result holds an exception that is not caught (one that
  is not of class \<^verbatim>\<open>Exception\<close>), the binding of \<^verbatim>\<open>e\<close> afterwards, and the state.
\<close>

definition recover_container ::
  "env \<Rightarrow> exn option \<Rightarrow> WorkRequestContainer \<Rightarrow> state \<Rightarrow> exn option \<times> exn option \<times> state" where
  "recover_container env e container s =
     (if num_responses container = 0 then
        (case perform env (ResetWork (message_id container)) s of
           (Some x, s1) \<Rightarrow> (if is_Exception x then (None, None, s1) else (Some x, e, s1))
         | (None, s1) \<Rightarrow>
             (case perform env (WorkQueueEnqueue (message_id container)) s1 of
                (Some x, s2) \<Rightarrow> (if is_Exception x then (None, None, s2) else (Some x, e, s2))
              | (None, s2) \<Rightarrow> (None, e, s2)))
      else
        (case e of
           None \<Rightarrow> (None, None, s)
         | Some ex \<Rightarrow>
             (case perform env (AbortWork (message_id container) (StrOfException ex)) s of
                (Some x, s1) \<Rightarrow> (if is_Exception x then (None, None, s1) else (Some x, e, s1))
              | (None, s1) \<Rightarrow> (None, e, s1))))"

text \<open>\<^verbatim>\<open>for container in work_request_map.values()\<close>.\<close>

fun recover ::
  "env \<Rightarrow> exn option \<Rightarrow> WorkRequestContainer list \<Rightarrow> state \<Rightarrow> exn option \<times> state" where
  "recover env e [] s = (None, s)"
| "recover env e (container # rest) s =
     (case recover_container env e container s of
        (Some x, e', s1) \<Rightarrow> (Some x, s1)
      | (None, e', s1) \<Rightarrow> recover env e' rest s1)"

text \<open>A cleanup call inside \<^verbatim>\<open>try: ... except Exception: logger.warning(...)\<close>.\<close>

definition best_effort :: "env \<Rightarrow> call \<Rightarrow> state \<Rightarrow> exn option \<times> state" where
  "best_effort env c s =
     (case perform env c s of
        (Some x, s1) \<Rightarrow> (if is_Exception x then (None, s1) else (Some x, s1))
      | (None, s1) \<Rightarrow> (None, s1))"

text \<open>\<^verbatim>\<open>for ftr in pending_futures\<close>, in the order of the list.\<close>

fun cancel_all :: "env \<Rightarrow> future list \<Rightarrow> state \<Rightarrow> exn option \<times> state" where
  "cancel_all env [] s = (None, s)"
| "cancel_all env (f # fs) s =
     (case best_effort env (Cancel f) s of
        (Some x, s1) \<Rightarrow> (Some x, s1)
      | (None, s1) \<Rightarrow> cancel_all env fs s1)"

text \<open>The \<^verbatim>\<open>finally\<close> clause of \<^verbatim>\<open>handle_worker\<close>.\<close>

definition finally_clause :: "env \<Rightarrow> state \<Rightarrow> exn option \<times> state" where
  "finally_clause env s =
     (case best_effort env RedisClose s of
        (Some x, s1) \<Rightarrow> (Some x, s1)
      | (None, s1) \<Rightarrow>
          (case best_effort env DeleteWorkerSession s1 of
             (Some x, s2) \<Rightarrow> (Some x, s2)
           | (None, s2) \<Rightarrow>
               (case cancel_all env (pending_futures s2) s2 of
                  (Some x, s3) \<Rightarrow> (Some x, s3)
                | (None, s3) \<Rightarrow> best_effort env WebsocketClose s3)))"

text \<open>How \<^verbatim>\<open>handle_worker\<close> ends: it returns, or an exception leaves it.\<close>

datatype outcome = Running | Returned | Raised exn

text \<open>
  What follows an exception \<open>e\<close> raised in the \<^verbatim>\<open>try\<close> block: the \<^verbatim>\<open>except Exception\<close>
  clause when \<open>e\<close> is of that class, then the \<^verbatim>\<open>finally\<close> clause. An exception that
  leaves the \<^verbatim>\<open>finally\<close> clause replaces the one in flight.
\<close>

definition except_finally :: "env \<Rightarrow> exn \<Rightarrow> state \<Rightarrow> outcome \<times> state" where
  "except_finally env e s =
     (if is_Exception e then
        (case recover env (Some e) (map snd (work_request_map s)) s of
           (Some x, s1) \<Rightarrow>
             (case finally_clause env s1 of
                (Some y, s2) \<Rightarrow> (Raised y, s2)
              | (None, s2) \<Rightarrow> (Raised x, s2))
         | (None, s1) \<Rightarrow>
             (case finally_clause env s1 of
                (Some y, s2) \<Rightarrow> (Raised y, s2)
              | (None, s2) \<Rightarrow> (Returned, s2)))
      else
        (case finally_clause env s of
           (Some y, s2) \<Rightarrow> (Raised y, s2)
         | (None, s2) \<Rightarrow> (Raised e, s2)))"

subsection \<open>\<^verbatim>\<open>handle_worker\<close>\<close>

text \<open>
  The state in which the \<^verbatim>\<open>try\<close> statement is entered. The session is built by
  \<^verbatim>\<open>worker_utils.WorkerSession\<close> from the worker id and the configuration alone; that
  class is not among the sources, and a session of no request in flight and no metrics
  is taken for what it builds.
\<close>

definition initial_state :: state where
  "initial_state =
     \<lparr>work_request_map = [], pending_futures = [], requests_in_flight = 0,
      session_metrics = None, trace = []\<rparr>"

text \<open>The \<^verbatim>\<open>try\<close> block: the connect event, the session, the first futures, the loop.\<close>

definition try_block ::
  "env \<Rightarrow> WorkerConfig \<Rightarrow> cycle list \<Rightarrow> state \<Rightarrow> exn option \<times> state" where
  "try_block env cfg cycles s =
     (case perform env AddWorkerConnectEvent s of
        (Some e, s1) \<Rightarrow> (Some e, s1)
      | (None, s1) \<Rightarrow>
          (case perform env (StoreWorkerSession (requests_in_flight s1) (session_metrics s1)) s1 of
             (Some e, s2) \<Rightarrow> (Some e, s2)
           | (None, s2) \<Rightarrow> loop env cfg cycles (add_receive (add_dequeue cfg s2))))"

definition handle_worker :: "env \<Rightarrow> WorkerConfig \<Rightarrow> cycle list \<Rightarrow> outcome \<times> state" where
  "handle_worker env cfg cycles =
     (case try_block env cfg cycles initial_state of
        (None, s) \<Rightarrow> (Running, s)
      | (Some e, s) \<Rightarrow> except_finally env e s)"

section \<open>Notions used in the properties\<close>

text \<open>The calls that the recovery loop makes.\<close>

fun recovery_call :: "call \<Rightarrow> bool" where
  "recovery_call (ResetWork mid) = True"
| "recovery_call (WorkQueueEnqueue mid) = True"
| "recovery_call (AbortWork mid why) = True"
| "recovery_call _ = False"

text \<open>
  The message ids that the queue hands to the connection in the given cycles, in the
  order in which they are processed, and the message ids of the ledger.
\<close>

fun delivered_result :: "result \<Rightarrow> string list" where
  "delivered_result (ResultTuple q mid) = [mid]"
| "delivered_result _ = []"

fun delivered_cycle :: "cycle \<Rightarrow> string list" where
  "delivered_cycle (WaitReturns done) = concat (map (\<lambda>(f, r). delivered_result r) done)"
| "delivered_cycle _ = []"

definition delivered :: "cycle list \<Rightarrow> string list" where
  "delivered cycles = concat (map delivered_cycle cycles)"

definition message_ids :: "WorkRequestContainerMap \<Rightarrow> string list" where
  "message_ids m = map (\<lambda>(k, c). message_id c) m"




section \<open>Example inputs\<close>

text \<open>An environment in which no call raises, and a keepalive answer.\<close>

definition quiet_env :: env where
  "quiet_env =
     \<lparr>raises = (\<lambda>h c. None),
      new_request_id = (\<lambda>h. replicate (length h) CHR ''r''),
      utcnow = length\<rparr>"

definition pong :: WorkerResponse where
  "pong =
     \<lparr>response_type = ''pong'', request_id = None, metrics = ''idle'',
      text_of = [], error = []\<rparr>"

text \<open>
  A worker with one request in flight that has streamed two tokens, its final
  response, and an environment whose message store is down.
\<close>

definition one_in_flight :: state where
  "one_in_flight =
     \<lparr>work_request_map =
        [(''r1'', \<lparr>work_request = \<lparr>work_request_id = ''r1''\<rparr>, message_id = ''m1'',
                  start_time = 0, num_responses = 2\<rparr>)],
      pending_futures = [Receive], requests_in_flight = 1,
      session_metrics = None, trace = []\<rparr>"

definition final_text :: WorkerResponse where
  "final_text =
     \<lparr>response_type = ''generated_text'', request_id = Some ''r1'', metrics = ''busy'',
      text_of = ''Hello'', error = []\<rparr>"

definition store_down_env :: env where
  "store_down_env =
     \<lparr>raises = (\<lambda>h c. case c of
                  CompleteWork mid content \<Rightarrow> Some (CollaboratorError ''store down'')
                | ResetWork mid \<Rightarrow> Some (CollaboratorError ''store down'')
                | AbortWork mid why \<Rightarrow> Some (CollaboratorError ''store down'')
                | _ \<Rightarrow> None),
      new_request_id = (\<lambda>h. replicate (length h) CHR ''r''),
      utcnow = length\<rparr>"

text \<open>
  Environments in which the websocket is closed when a work request is sent, with the
  message store up and with the message store down.
\<close>

definition send_fails_env :: env where
  "send_fails_env =
     \<lparr>raises = (\<lambda>h c. case c of
                  SendWorkRequest rid \<Rightarrow> Some (CollaboratorError ''connection closed'')
                | _ \<Rightarrow> None),
      new_request_id = (\<lambda>h. replicate (length h) CHR ''r''),
      utcnow = length\<rparr>"

definition send_and_store_fail_env :: env where
  "send_and_store_fail_env =
     \<lparr>raises = (\<lambda>h c. case c of
                  SendWorkRequest rid \<Rightarrow> Some (CollaboratorError ''connection closed'')
                | ResetWork mid \<Rightarrow> Some (CollaboratorError ''store down'')
                | _ \<Rightarrow> None),
      new_request_id = (\<lambda>h. replicate (length h) CHR ''r''),
      utcnow = length\<rparr>"





section \<open>Properties\<close>

subsection \<open>What the handlers leave alone\<close>

lemma perform_pending [simp]: "pending_futures (snd (perform env c s)) = pending_futures s"
  by (simp add: perform_def)

lemma perform_map [simp]: "work_request_map (snd (perform env c s)) = work_request_map s"
  by (simp add: perform_def)

lemma get_work_request_container_snd [simp]: "snd (get_work_request_container m rid) = m"
  by (simp add: get_work_request_container_def split: option.splits)

lemma update_session_pending [simp]:
  "pending_futures (snd (update_session env m s)) = pending_futures s"
  by (simp add: update_session_def)

lemma handle_token_response_pending [simp]:
  "pending_futures (snd (handle_token_response env r s)) = pending_futures s"
  by (auto simp: handle_token_response_def perform_def get_work_request_container_def
      split: prod.splits sum.splits option.splits)

lemma handle_generated_text_response_pending [simp]:
  "pending_futures (snd (handle_generated_text_response env r s)) = pending_futures s"
  by (auto simp: handle_generated_text_response_def perform_def get_work_request_container_def
      split: prod.splits sum.splits option.splits)

lemma handle_error_response_pending [simp]:
  "pending_futures (snd (handle_error_response env r s)) = pending_futures s"
  by (auto simp: handle_error_response_def perform_def get_work_request_container_def
      split: prod.splits sum.splits option.splits)

lemma route_response_pending [simp]:
  "pending_futures (snd (route_response env r s)) = pending_futures s"
  by (auto simp: route_response_def handle_general_error_response_def
      split: prod.splits option.splits)
   (metis handle_generated_text_response_pending handle_error_response_pending
      update_session_pending snd_conv)+

subsection \<open>Ledger lookup\<close>

text \<open>
  C8. \<^verbatim>\<open>get_work_request_container\<close> raises exactly when the request id is \<^verbatim>\<open>None\<close> or
  is not a key of the ledger, and what it raises is \<open>WorkRequestNotFound\<close>; when the id
  is a key it returns the entry stored there; in every case the ledger is the same
  afterwards.
\<close>

theorem get_work_request_container_lookup:
  "(isl (fst (get_work_request_container m rid))
      \<longleftrightarrow> (rid = None \<or> (\<exists>r. rid = Some r \<and> map_of m r = None)))
   \<and> (isl (fst (get_work_request_container m rid))
      \<longrightarrow> fst (get_work_request_container m rid) = Inl (WorkRequestNotFound rid))
   \<and> (\<forall>r c. rid = Some r \<and> map_of m r = Some c
      \<longrightarrow> fst (get_work_request_container m rid) = Inr c)
   \<and> snd (get_work_request_container m rid) = m"
  by (auto simp: get_work_request_container_def split: option.splits)

theorem get_work_request_container_lookup_witness:
  "get_work_request_container
     [(''r1'', \<lparr>work_request = \<lparr>work_request_id = ''r1''\<rparr>, message_id = ''m1'',
               start_time = 0, num_responses = 2\<rparr>)] (Some ''r1'')
   = (Inr \<lparr>work_request = \<lparr>work_request_id = ''r1''\<rparr>, message_id = ''m1'',
               start_time = 0, num_responses = 2\<rparr>,
      [(''r1'', \<lparr>work_request = \<lparr>work_request_id = ''r1''\<rparr>, message_id = ''m1'',
               start_time = 0, num_responses = 2\<rparr>)])
   \<and> fst (get_work_request_container
     [(''r1'', \<lparr>work_request = \<lparr>work_request_id = ''r1''\<rparr>, message_id = ''m1'',
               start_time = 0, num_responses = 2\<rparr>)] (Some ''r2''))
     = Inl (WorkRequestNotFound (Some ''r2''))"
  using get_work_request_container_lookup
          [of "[(''r1'', \<lparr>work_request = \<lparr>work_request_id = ''r1''\<rparr>, message_id = ''m1'',
               start_time = 0, num_responses = 2\<rparr>)]" "Some ''r1''"]
        get_work_request_container_lookup
          [of "[(''r1'', \<lparr>work_request = \<lparr>work_request_id = ''r1''\<rparr>, message_id = ''m1'',
               start_time = 0, num_responses = 2\<rparr>)]" "Some ''r2''"]
  by (simp add: prod_eq_iff)

subsection \<open>Re-arming after a received response\<close>

text \<open>
  C6. After a completed receive has gone through \<open>route_response\<close>, whether the
  handler raised or not, the pending futures are those from before, then a new dequeue
  exactly when none was pending and the ledger, as the handler left it, is below
  \<open>max_parallel_requests\<close>, then a new receive.
\<close>

theorem receive_rearms:
  "pending_futures (snd (process_result env cfg (ResultResponse response) s)) =
     pending_futures s
       @ (if pending_futures s = []
             \<and> int (length (work_request_map (snd (route_response env response s))))
                 < max_parallel_requests cfg
          then [Dequeue] else [])
       @ [Receive]"
proof -
  obtain r' s1 where rr: "route_response env response s = (r', s1)"
    by (cases "route_response env response s")
  have "pending_futures s1 = pending_futures s"
    using route_response_pending [of env response s] rr by simp
  then show ?thesis
    using rr by (simp add: process_result_def add_receive_def add_dequeue_def)
qed

subsection \<open>An exception inside a cycle ends the connection\<close>

lemma process_done_append:
  "process_done env cfg (xs @ ys) s =
     (case process_done env cfg xs s of
        (Some e, s1) \<Rightarrow> (Some e, s1)
      | (None, s1) \<Rightarrow> process_done env cfg ys s1)"
  by (induction xs arbitrary: s) (auto split: prod.splits option.splits)

lemma loop_append:
  "loop env cfg (cs @ cs') s =
     (case loop env cfg cs s of
        (Some e, s1) \<Rightarrow> (Some e, s1)
      | (None, s1) \<Rightarrow> loop env cfg cs' s1)"
  by (induction cs arbitrary: s) (auto split: prod.splits option.splits)

lemma try_block_append:
  "try_block env cfg cs s0 = (None, s) \<Longrightarrow> try_block env cfg (cs @ cs') s0 = loop env cfg cs' s"
  by (auto simp: try_block_def loop_append split: prod.splits option.splits)

text \<open>
  The worker has run the cycles \<open>cs\<close> and stands in \<open>s\<close>. In the next cycle the
  futures \<open>pre\<close> are processed without an exception and the result \<open>r\<close> raises \<open>e\<close>.
  Then neither the rest of \<open>done\<close> nor any later cycle is looked at.
\<close>

lemma raise_in_cycle:
  assumes "try_block env cfg cs initial_state = (None, s)"
    and "pending_futures s \<noteq> []"
    and "process_done env cfg (map snd pre)
           (s\<lparr>pending_futures :=
                fold remove1 (map fst (pre @ (f, r) # post)) (pending_futures s)\<rparr>) = (None, s1)"
    and "process_result env cfg r s1 = (Some e, s2)"
  shows "handle_worker env cfg (cs @ WaitReturns (pre @ (f, r) # post) # cs')
           = except_finally env e s2"
proof -
  have "process_done env cfg (map snd (pre @ (f, r) # post))
           (s\<lparr>pending_futures :=
                fold remove1 (map fst (pre @ (f, r) # post)) (pending_futures s)\<rparr>) = (Some e, s2)"
    using assms(3,4) by (simp add: process_done_append)
  then have "loop_body env cfg (WaitReturns (pre @ (f, r) # post)) s = (Some e, s2)"
    using assms(2) by (simp add: loop_body_def)
  then have "loop env cfg (WaitReturns (pre @ (f, r) # post) # cs') s = (Some e, s2)"
    by simp
  then have "try_block env cfg (cs @ WaitReturns (pre @ (f, r) # post) # cs') initial_state
               = (Some e, s2)"
    using try_block_append [OF assms(1)] by simp
  then show ?thesis by (simp add: handle_worker_def)
qed

lemma except_finally_Exception_state:
  "is_Exception e \<Longrightarrow>
   snd (except_finally env e s) =
     snd (finally_clause env (snd (recover env (Some e) (map snd (work_request_map s)) s)))"
  by (auto simp: except_finally_def split: prod.splits option.splits)

lemma setup_quiet:
  "try_block quiet_env \<lparr>max_parallel_requests = 1\<rparr> [] initial_state =
     (None, \<lparr>work_request_map = [], pending_futures = [Dequeue, Receive],
             requests_in_flight = 0, session_metrics = None,
             trace = [(AddWorkerConnectEvent, None), (StoreWorkerSession 0 None, None)]\<rparr>)"
  by (simp add: try_block_def perform_def quiet_env_def initial_state_def add_dequeue_def
      add_receive_def)

subsection \<open>The capacity gate\<close>

text \<open>
  C2. A worker with \<open>max_parallel_requests = 1\<close> whose first dequeue and first receive
  complete in the same wait, the receive (a pong) being visited first: while the pong
  is handled no future is pending and the ledger is empty, so a dequeue is armed; then
  the queue item is dispatched and fills the ledger. The cycle ends with a dequeue
  pending and one entry in the ledger. When that dequeue completes in the next cycle,
  a second request is dispatched and the ledger holds two entries.
\<close>

theorem dequeue_armed_at_capacity:
  "pending_futures (snd (handle_worker quiet_env \<lparr>max_parallel_requests = 1\<rparr>
      [WaitReturns [(Receive, ResultResponse pong), (Dequeue, ResultTuple ''work'' ''m1'')]]))
     = [Dequeue, Receive]
   \<and> map fst (work_request_map (snd (handle_worker quiet_env \<lparr>max_parallel_requests = 1\<rparr>
      [WaitReturns [(Receive, ResultResponse pong), (Dequeue, ResultTuple ''work'' ''m1'')]])))
     = [''rrrrr'']
   \<and> map fst (work_request_map (snd (handle_worker quiet_env \<lparr>max_parallel_requests = 1\<rparr>
      [WaitReturns [(Receive, ResultResponse pong), (Dequeue, ResultTuple ''work'' ''m1'')],
       WaitReturns [(Dequeue, ResultTuple ''work'' ''m2'')]])))
     = [''rrrrr'', ''rrrrrrrr'']"
  by (simp add: handle_worker_def try_block_def perform_def quiet_env_def initial_state_def
      add_dequeue_def add_receive_def loop_body_def process_result_def route_response_def
      update_session_def pong_def initiate_work_for_message_def)

subsection \<open>Routing by response type\<close>

text \<open>
  C4. Each of the five response types has its own path through \<open>route_response\<close>:
  \<^verbatim>\<open>pong\<close> updates the session; \<^verbatim>\<open>token\<close> runs the token handler;
  \<^verbatim>\<open>generated_text\<close>, \<^verbatim>\<open>error\<close> and \<^verbatim>\<open>general_error\<close> run their handler and, when it
  did not raise, update the session. Any other response type raises \<open>RuntimeError\<close>
  without touching the state; when the \<^verbatim>\<open>for\<close> statement reaches such a response in the
  cycle after \<open>cs\<close>, the futures are re-armed by the \<^verbatim>\<open>finally\<close> clause and the connection
  ends in the \<^verbatim>\<open>except\<close> and \<^verbatim>\<open>finally\<close> clauses, whatever \<open>done\<close> and the later cycles still
  hold.
\<close>

theorem routing_by_response_type:
  "(response_type r = ''pong'' \<longrightarrow>
      route_response env r s = update_session env (metrics r) s)
   \<and> (response_type r = ''token'' \<longrightarrow>
      route_response env r s = handle_token_response env r s)
   \<and> (response_type r = ''generated_text'' \<longrightarrow>
      route_response env r s =
        (case handle_generated_text_response env r s of
           (Some e, s1) \<Rightarrow> (Some e, s1)
         | (None, s1) \<Rightarrow> update_session env (metrics r) s1))
   \<and> (response_type r = ''error'' \<longrightarrow>
      route_response env r s =
        (case handle_error_response env r s of
           (Some e, s1) \<Rightarrow> (Some e, s1)
         | (None, s1) \<Rightarrow> update_session env (metrics r) s1))
   \<and> (response_type r = ''general_error'' \<longrightarrow>
      route_response env r s = update_session env (metrics r) s)
   \<and> (response_type r \<notin> {''pong'', ''token'', ''generated_text'', ''error'', ''general_error''} \<longrightarrow>
      route_response env r s =
        (Some (RuntimeError (''Unknown response type: '' @ response_type r)), s)
      \<and> (try_block env cfg cs initial_state = (None, s0) \<and> pending_futures s0 \<noteq> []
         \<and> process_done env cfg (map snd pre)
             (s0\<lparr>pending_futures :=
                  fold remove1 (map fst (pre @ (Receive, ResultResponse r) # post))
                    (pending_futures s0)\<rparr>) = (None, s)
         \<longrightarrow> handle_worker env cfg
               (cs @ WaitReturns (pre @ (Receive, ResultResponse r) # post) # cs')
             = except_finally env
                 (RuntimeError (''Unknown response type: '' @ response_type r))
                 (add_receive (if pending_futures s = [] then add_dequeue cfg s else s))))"
proof -
  have unknown:
    "route_response env r s =
       (Some (RuntimeError (''Unknown response type: '' @ response_type r)), s)"
    if "response_type r \<notin> {''pong'', ''token'', ''generated_text'', ''error'', ''general_error''}"
    using that by (simp add: route_response_def)
  have ends:
    "handle_worker env cfg (cs @ WaitReturns (pre @ (Receive, ResultResponse r) # post) # cs')
       = except_finally env (RuntimeError (''Unknown response type: '' @ response_type r))
           (add_receive (if pending_futures s = [] then add_dequeue cfg s else s))"
    if u: "response_type r \<notin> {''pong'', ''token'', ''generated_text'', ''error'', ''general_error''}"
      and a: "try_block env cfg cs initial_state = (None, s0)"
      and b: "pending_futures s0 \<noteq> []"
      and c: "process_done env cfg (map snd pre)
             (s0\<lparr>pending_futures :=
                  fold remove1 (map fst (pre @ (Receive, ResultResponse r) # post))
                    (pending_futures s0)\<rparr>) = (None, s)"
  proof -
    have "process_result env cfg (ResultResponse r) s =
            (Some (RuntimeError (''Unknown response type: '' @ response_type r)),
             add_receive (if pending_futures s = [] then add_dequeue cfg s else s))"
      using unknown [OF u] by (simp add: process_result_def)
    from raise_in_cycle [OF a b c this] show ?thesis .
  qed
  show ?thesis
    using unknown ends
    by (simp add: route_response_def handle_general_error_response_def)
qed

text \<open>
  The five paths at work on one state, and a response of type \<^verbatim>\<open>ping\<close> arriving at
  a freshly connected worker.
\<close>

theorem routing_by_response_type_witness:
  "route_response quiet_env pong initial_state
     = update_session quiet_env ''idle'' initial_state
   \<and> route_response quiet_env (pong\<lparr>response_type := ''token''\<rparr>) initial_state
     = (Some (WorkRequestNotFound None), initial_state)
   \<and> fst (route_response quiet_env (pong\<lparr>response_type := ''generated_text''\<rparr>) initial_state)
     = Some (WorkRequestNotFound None)
   \<and> fst (route_response quiet_env (pong\<lparr>response_type := ''error''\<rparr>) initial_state)
     = Some (WorkRequestNotFound None)
   \<and> route_response quiet_env (pong\<lparr>response_type := ''general_error''\<rparr>) initial_state
     = update_session quiet_env ''idle'' initial_state
   \<and> handle_worker quiet_env \<lparr>max_parallel_requests = 1\<rparr>
       [WaitReturns [(Receive, ResultResponse (pong\<lparr>response_type := ''ping''\<rparr>))], WaitReturns []]
     = except_finally quiet_env (RuntimeError ''Unknown response type: ping'')
         \<lparr>work_request_map = [], pending_futures = [Dequeue, Receive],
          requests_in_flight = 0, session_metrics = None,
          trace = [(AddWorkerConnectEvent, None), (StoreWorkerSession 0 None, None)]\<rparr>"
  using routing_by_response_type [of pong quiet_env initial_state]
    routing_by_response_type [of "pong\<lparr>response_type := ''token''\<rparr>" quiet_env initial_state]
    routing_by_response_type [of "pong\<lparr>response_type := ''generated_text''\<rparr>" quiet_env initial_state]
    routing_by_response_type [of "pong\<lparr>response_type := ''error''\<rparr>" quiet_env initial_state]
    routing_by_response_type [of "pong\<lparr>response_type := ''general_error''\<rparr>" quiet_env initial_state]
    routing_by_response_type [of "pong\<lparr>response_type := ''ping''\<rparr>" quiet_env
      "\<lparr>work_request_map = [], pending_futures = [Dequeue],
        requests_in_flight = 0, session_metrics = None,
        trace = [(AddWorkerConnectEvent, None), (StoreWorkerSession 0 None, None)]\<rparr>"
      "\<lparr>max_parallel_requests = 1\<rparr>" "[]" _ "[]" "[]" "[WaitReturns []]", unfolded setup_quiet]
  by (simp add: pong_def handle_token_response_def handle_generated_text_response_def
      handle_error_response_def get_work_request_container_def initial_state_def
      add_receive_def)

subsection \<open>A final response\<close>

text \<open>
  C10. When \<open>handle_generated_text_response\<close> raises, the ledger is as before, each
  entry with its \<open>num_responses\<close>. When it does not raise, the request id was a key of the
  ledger, \<^verbatim>\<open>complete_work\<close> and then the enqueue of the finished message on the message's
  queue were called and neither raised, and the ledger is the old one without that key.
\<close>

theorem generated_text_removes_last:
  "(fst (handle_generated_text_response env response s) \<noteq> None \<longrightarrow>
      work_request_map (snd (handle_generated_text_response env response s))
        = work_request_map s)
   \<and> (fst (handle_generated_text_response env response s) = None \<longrightarrow>
      (\<exists>rid c. request_id response = Some rid \<and> map_of (work_request_map s) rid = Some c
         \<and> trace (snd (handle_generated_text_response env response s))
           = trace s @ [(CompleteWork (message_id c) (text_of response), None),
                        (MessageQueueEnqueue (message_id c)
                           (InternalFinishedMessageResponse (message_id c)), None)]
         \<and> work_request_map (snd (handle_generated_text_response env response s))
           = AList.delete rid (work_request_map s)))"
  by (auto simp: handle_generated_text_response_def get_work_request_container_def
      perform_def del_item_def split: option.splits)

theorem generated_text_removes_last_witness:
  "handle_generated_text_response store_down_env final_text one_in_flight
     = (Some (CollaboratorError ''store down''),
        one_in_flight\<lparr>trace :=
          [(CompleteWork ''m1'' ''Hello'', Some (CollaboratorError ''store down''))]\<rparr>)
   \<and> fst (handle_generated_text_response quiet_env final_text one_in_flight) = None
   \<and> work_request_map (snd (handle_generated_text_response quiet_env final_text one_in_flight))
     = []"
  using generated_text_removes_last [of store_down_env final_text one_in_flight]
    generated_text_removes_last [of quiet_env final_text one_in_flight]
  by (simp add: handle_generated_text_response_def get_work_request_container_def
      perform_def del_item_def store_down_env_def quiet_env_def final_text_def
      one_in_flight_def)

subsection \<open>Recovery\<close>

lemma recover_container_quiet:
  assumes "\<And>h c. recovery_call c \<Longrightarrow> raises env h c = None"
  shows "recover_container env (Some e) c s =
           (None, Some e,
            s\<lparr>trace := trace s @
                (if num_responses c = 0
                 then [(ResetWork (message_id c), None), (WorkQueueEnqueue (message_id c), None)]
                 else [(AbortWork (message_id c) (StrOfException e), None)])\<rparr>)"
  using assms by (simp add: recover_container_def perform_def)

lemma recover_quiet:
  assumes "\<And>h c. recovery_call c \<Longrightarrow> raises env h c = None"
  shows "recover env (Some e) cs s =
           (None,
            s\<lparr>trace := trace s @ concat (map (\<lambda>c.
                if num_responses c = 0
                then [(ResetWork (message_id c), None), (WorkQueueEnqueue (message_id c), None)]
                else [(AbortWork (message_id c) (StrOfException e), None)]) cs)\<rparr>)"
proof (induction cs arbitrary: s)
  case Nil
  show ?case by simp
next
  case (Cons c cs)
  show ?case
    by (simp add: recover_container_quiet [OF assms] Cons.IH)
qed

text \<open>
  C1, as amended. When the connection ends with an exception \<open>e\<close> of class \<^verbatim>\<open>Exception\<close>
  and none of \<^verbatim>\<open>reset_work\<close>, \<^verbatim>\<open>abort_work\<close> and the enqueue on the work queue raises,
  the recovery loop goes through the entries of the ledger in order and does, for
  each, one of two things, chosen by \<open>num_responses\<close> alone: for 0 it calls
  \<^verbatim>\<open>reset_work\<close> and enqueues the message id; otherwise it calls \<^verbatim>\<open>abort_work\<close> with
  \<^verbatim>\<open>str(e)\<close> as the reason and enqueues nothing. The \<^verbatim>\<open>finally\<close> clause follows.
\<close>

theorem recovery_partition:
  assumes "\<And>h c. recovery_call c \<Longrightarrow> raises env h c = None"
    and "is_Exception e"
  shows "recover env (Some e) (map snd (work_request_map s)) s =
           (None,
            s\<lparr>trace := trace s @ concat (map (\<lambda>c.
                if num_responses c = 0
                then [(ResetWork (message_id c), None), (WorkQueueEnqueue (message_id c), None)]
                else [(AbortWork (message_id c) (StrOfException e), None)])
              (map snd (work_request_map s)))\<rparr>)
         \<and> snd (except_finally env e s) =
             snd (finally_clause env
                    (snd (recover env (Some e) (map snd (work_request_map s)) s)))"
  using recover_quiet [OF assms(1)] except_finally_Exception_state [OF assms(2)]
  by simp

theorem recovery_partition_witness:
  "recover quiet_env (Some (CollaboratorError ''connection closed''))
     (map snd (work_request_map
        (one_in_flight\<lparr>work_request_map :=
           work_request_map one_in_flight @
             [(''r2'', \<lparr>work_request = \<lparr>work_request_id = ''r2''\<rparr>, message_id = ''m2'',
                       start_time = 1, num_responses = 0\<rparr>)]\<rparr>)))
     (one_in_flight\<lparr>work_request_map :=
           work_request_map one_in_flight @
             [(''r2'', \<lparr>work_request = \<lparr>work_request_id = ''r2''\<rparr>, message_id = ''m2'',
                       start_time = 1, num_responses = 0\<rparr>)]\<rparr>)
   = (None,
      one_in_flight\<lparr>work_request_map :=
           work_request_map one_in_flight @
             [(''r2'', \<lparr>work_request = \<lparr>work_request_id = ''r2''\<rparr>, message_id = ''m2'',
                       start_time = 1, num_responses = 0\<rparr>)],
         trace :=
           [(AbortWork ''m1'' (StrOfException (CollaboratorError ''connection closed'')), None),
            (ResetWork ''m2'', None), (WorkQueueEnqueue ''m2'', None)]\<rparr>)"
  using recovery_partition [of quiet_env "CollaboratorError ''connection closed''"
      "one_in_flight\<lparr>work_request_map :=
           work_request_map one_in_flight @
             [(''r2'', \<lparr>work_request = \<lparr>work_request_id = ''r2''\<rparr>, message_id = ''m2'',
                       start_time = 1, num_responses = 0\<rparr>)]\<rparr>"]
  by (simp add: quiet_env_def one_in_flight_def)

text \<open>
  The claim as stated fails when \<^verbatim>\<open>reset_work\<close> raises: a message is dispatched, the
  connection breaks before any response, and the store is down. The entry has
  \<open>num_responses = 0\<close>; it is neither enqueued again nor aborted.
\<close>

theorem recovery_reset_fails_counterexample:
  "handle_worker store_down_env \<lparr>max_parallel_requests = 1\<rparr>
     [WaitReturns [(Dequeue, ResultTuple ''work'' ''m1'')],
      WaitRaises (CollaboratorError ''connection closed'')]
   = (Returned,
      \<lparr>work_request_map =
         [(''rrrr'', \<lparr>work_request = \<lparr>work_request_id = ''rrrr''\<rparr>, message_id = ''m1'',
                     start_time = 5, num_responses = 0\<rparr>)],
       pending_futures = [Receive], requests_in_flight = 0, session_metrics = None,
       trace =
         [(AddWorkerConnectEvent, None), (StoreWorkerSession 0 None, None),
          (StartWork ''m1'', None), (BuildWorkRequest ''m1'', None),
          (SendWorkRequest ''rrrr'', None),
          (ResetWork ''m1'', Some (CollaboratorError ''store down'')),
          (RedisClose, None), (DeleteWorkerSession, None), (Cancel Receive, None),
          (WebsocketClose, None)]\<rparr>)"
  by (simp add: handle_worker_def try_block_def perform_def store_down_env_def
      initial_state_def add_dequeue_def add_receive_def loop_body_def process_result_def
      initiate_work_for_message_def except_finally_def recover_container_def
      finally_clause_def best_effort_def)

subsection \<open>A work request that cannot be sent\<close>

lemma add_dequeue_map [simp]: "work_request_map (add_dequeue cfg s) = work_request_map s"
  by (simp add: add_dequeue_def)

lemma add_dequeue_trace [simp]: "trace (add_dequeue cfg s) = trace s"
  by (simp add: add_dequeue_def)

text \<open>
  C5, as amended. \<^verbatim>\<open>start_work\<close> and \<^verbatim>\<open>build_work_request\<close> succeed and sending the work
  request raises \<open>e\<close> of class \<^verbatim>\<open>Exception\<close>. Then \<^verbatim>\<open>reset_work\<close> is called for the
  message, an exception leaves the dispatch, and the ledger is as before. If moreover
  \<^verbatim>\<open>reset_work\<close> and the enqueue do not raise, the message id is enqueued on the work
  queue after the reset and the exception that leaves the dispatch is \<open>e\<close> itself.
\<close>

theorem failed_send_rolls_back:
  assumes "\<And>h. raises env h (StartWork mid) = None"
    and "\<And>h. raises env h (BuildWorkRequest mid) = None"
    and "\<And>h rid. raises env h (SendWorkRequest rid) = Some e"
    and "is_Exception e"
  shows "fst (process_result env cfg (ResultTuple q mid) s) \<noteq> None
       \<and> ResetWork mid \<in> set (map fst (trace (snd (process_result env cfg (ResultTuple q mid) s))))
       \<and> work_request_map (snd (process_result env cfg (ResultTuple q mid) s))
           = work_request_map s
       \<and> ((\<forall>h. raises env h (ResetWork mid) = None)
            \<and> (\<forall>h. raises env h (WorkQueueEnqueue mid) = None) \<longrightarrow>
          process_result env cfg (ResultTuple q mid) s =
            (Some e,
             add_dequeue cfg
               (s\<lparr>trace := trace s @
                   [(StartWork mid, None), (BuildWorkRequest mid, None),
                    (SendWorkRequest
                       (new_request_id env
                          (trace s @ [(StartWork mid, None), (BuildWorkRequest mid, None)])),
                     Some e),
                    (ResetWork mid, None), (WorkQueueEnqueue mid, None)]\<rparr>)))"
  using assms
  by (auto simp: process_result_def initiate_work_for_message_def perform_def
      split: option.splits)

theorem failed_send_rolls_back_witness:
  "process_result send_fails_env \<lparr>max_parallel_requests = 1\<rparr> (ResultTuple ''work'' ''m1'')
     (initial_state\<lparr>pending_futures := [Receive]\<rparr>)
   = (Some (CollaboratorError ''connection closed''),
      initial_state\<lparr>pending_futures := [Receive, Dequeue],
        trace := [(StartWork ''m1'', None), (BuildWorkRequest ''m1'', None),
                  (SendWorkRequest ''rr'', Some (CollaboratorError ''connection closed'')),
                  (ResetWork ''m1'', None), (WorkQueueEnqueue ''m1'', None)]\<rparr>)"
  using failed_send_rolls_back [of send_fails_env "''m1''" "CollaboratorError ''connection closed''"
      "\<lparr>max_parallel_requests = 1\<rparr>" "''work''" "initial_state\<lparr>pending_futures := [Receive]\<rparr>"]
  by (simp add: send_fails_env_def initial_state_def add_dequeue_def)

text \<open>
  The claim as stated fails when \<^verbatim>\<open>reset_work\<close> raises in the handler of the failed
  send: the message id is not enqueued, and the exception that leaves the dispatch is
  the one of the store, not the one of the send.
\<close>

theorem failed_send_failed_reset_counterexample:
  "initiate_work_for_message send_and_store_fail_env ''m1'' initial_state
   = (Inl (CollaboratorError ''store down''),
      initial_state\<lparr>trace :=
        [(StartWork ''m1'', None), (BuildWorkRequest ''m1'', None),
         (SendWorkRequest ''rr'', Some (CollaboratorError ''connection closed'')),
         (ResetWork ''m1'', Some (CollaboratorError ''store down''))]\<rparr>)"
  by (simp add: initiate_work_for_message_def perform_def send_and_store_fail_env_def
      initial_state_def)

subsection \<open>What the recovery loop leaves alone\<close>

lemma recover_container_frame:
  "recover_container env e c s = (x, e', s1) \<Longrightarrow>
     pending_futures s1 = pending_futures s \<and> work_request_map s1 = work_request_map s"
  by (auto simp: recover_container_def perform_def split: if_splits option.splits)

lemma recover_frame:
  "pending_futures (snd (recover env e cs s)) = pending_futures s
   \<and> work_request_map (snd (recover env e cs s)) = work_request_map s"
proof (induction cs arbitrary: e s)
  case Nil
  show ?case by simp
next
  case (Cons c cs)
  obtain x e' s1 where r: "recover_container env e c s = (x, e', s1)"
    by (cases "recover_container env e c s")
  show ?case
    using recover_container_frame [OF r] Cons.IH [of e' s1] r
    by (cases x) simp_all
qed

subsection \<open>Message ids in the ledger\<close>

lemma message_ids_increment [simp]:
  "message_ids (increment_num_responses rid m) = message_ids m"
  by (induction m) (auto simp: message_ids_def increment_num_responses_def)

lemma message_ids_delete_subset:
  "set (message_ids (AList.delete k m)) \<subseteq> set (message_ids m)"
  by (induction m) (auto simp: message_ids_def)

lemma message_ids_delete_distinct:
  "distinct (message_ids m) \<Longrightarrow> distinct (message_ids (AList.delete k m))"
proof (induction m)
  case Nil
  show ?case by (simp add: message_ids_def)
next
  case (Cons p m)
  have d: "distinct (message_ids m)" and n: "message_id (snd p) \<notin> set (message_ids m)"
    using Cons.prems by (auto simp: message_ids_def split_def)
  have "message_id (snd p) \<notin> set (message_ids (AList.delete k m))"
    using n message_ids_delete_subset [of k m] by blast
  then show ?case
    using Cons.IH [OF d] by (cases p) (simp add: message_ids_def)
qed

lemma message_ids_delete_fresh:
  "distinct (message_ids m @ D) \<Longrightarrow> distinct (message_ids (AList.delete k m) @ D)"
  using message_ids_delete_subset [of k m] message_ids_delete_distinct [of m k]
  by auto

lemma message_ids_update_subset:
  "set (message_ids (AList.update k c m)) \<subseteq> insert (message_id c) (set (message_ids m))"
  by (induction m) (auto simp: message_ids_def)

lemma message_ids_update_distinct:
  "distinct (message_ids m) \<Longrightarrow> message_id c \<notin> set (message_ids m) \<Longrightarrow>
     distinct (message_ids (AList.update k c m))"
proof (induction m)
  case Nil
  show ?case by (simp add: message_ids_def)
next
  case (Cons p m)
  have d: "distinct (message_ids m)" and n: "message_id (snd p) \<notin> set (message_ids m)"
    and c: "message_id c \<notin> set (message_ids m)" and pc: "message_id (snd p) \<noteq> message_id c"
    using Cons.prems by (auto simp: message_ids_def split_def)
  have "message_id (snd p) \<notin> set (message_ids (AList.update k c m))"
    using n pc message_ids_update_subset [of k c m] by blast
  then show ?case
    using Cons.IH [OF d c] Cons.prems by (cases p) (auto simp: message_ids_def)
qed

lemma message_ids_update_fresh:
  "distinct (message_ids m @ message_id c # D) \<Longrightarrow>
     distinct (message_ids (AList.update k c m) @ D)"
  using message_ids_update_subset [of k c m] message_ids_update_distinct [of m c k]
  by auto

lemma del_item_cases:
  "del_item rid m = Inr m' \<Longrightarrow> \<exists>k. m' = AList.delete k m"
  by (auto simp: del_item_def split: option.splits if_splits)

lemma update_session_map [simp]:
  "work_request_map (snd (update_session env x s)) = work_request_map s"
  by (simp add: update_session_def)

lemma handle_token_response_fresh:
  "distinct (message_ids (work_request_map s) @ D) \<Longrightarrow>
     distinct (message_ids (work_request_map (snd (handle_token_response env r s))) @ D)"
  by (auto simp: handle_token_response_def get_work_request_container_def perform_def
      split: option.splits)

lemma handle_generated_text_response_cases:
  "work_request_map (snd (handle_generated_text_response env r s)) = work_request_map s
   \<or> (\<exists>k. work_request_map (snd (handle_generated_text_response env r s))
            = AList.delete k (work_request_map s))"
  by (auto simp: handle_generated_text_response_def get_work_request_container_def perform_def
      split: option.splits sum.splits dest: del_item_cases)

lemma handle_error_response_cases:
  "work_request_map (snd (handle_error_response env r s)) = work_request_map s
   \<or> (\<exists>k. work_request_map (snd (handle_error_response env r s))
            = AList.delete k (work_request_map s))"
  by (auto simp: handle_error_response_def get_work_request_container_def perform_def
      split: option.splits sum.splits dest: del_item_cases)

lemma handle_generated_text_response_fresh:
  "distinct (message_ids (work_request_map s) @ D) \<Longrightarrow>
     distinct (message_ids (work_request_map (snd (handle_generated_text_response env r s))) @ D)"
  using handle_generated_text_response_cases [of env r s] message_ids_delete_fresh
  by metis

lemma handle_error_response_fresh:
  "distinct (message_ids (work_request_map s) @ D) \<Longrightarrow>
     distinct (message_ids (work_request_map (snd (handle_error_response env r s))) @ D)"
  using handle_error_response_cases [of env r s] message_ids_delete_fresh
  by metis

lemma route_response_fresh:
  assumes "distinct (message_ids (work_request_map s) @ D)"
  shows "distinct (message_ids (work_request_map (snd (route_response env r s))) @ D)"
proof -
  have g: "distinct (message_ids (work_request_map
              (snd (case handle_generated_text_response env r s of
                      (Some e, s1) \<Rightarrow> (Some e, s1)
                    | (None, s1) \<Rightarrow> update_session env (metrics r) s1))) @ D)"
    using handle_generated_text_response_fresh [OF assms, of env r]
    by (cases "handle_generated_text_response env r s") (auto split: option.splits)
  have e: "distinct (message_ids (work_request_map
              (snd (case handle_error_response env r s of
                      (Some e, s1) \<Rightarrow> (Some e, s1)
                    | (None, s1) \<Rightarrow> update_session env (metrics r) s1))) @ D)"
    using handle_error_response_fresh [OF assms, of env r]
    by (cases "handle_error_response env r s") (auto split: option.splits)
  show ?thesis
    using assms g e handle_token_response_fresh [OF assms, of env r]
    by (simp add: route_response_def handle_general_error_response_def)
qed
lemma initiate_work_for_message_map [simp]:
  "work_request_map (snd (initiate_work_for_message env mid s)) = work_request_map s"
  by (auto simp: initiate_work_for_message_def perform_def split: option.splits)

lemma distinct_drop_middle:
  "distinct (xs @ ys @ zs) \<Longrightarrow> distinct (xs @ zs)"
  by auto

lemma process_result_fresh:
  assumes "distinct (message_ids (work_request_map s) @ delivered_result r @ R)"
  shows "distinct (message_ids (work_request_map (snd (process_result env cfg r s))) @ R)"
proof (cases r)
  case ResultNone
  then show ?thesis using assms by (simp add: process_result_def)
next
  case (ResultRaises e)
  then show ?thesis using assms by (simp add: process_result_def)
next
  case (ResultResponse response)
  obtain r' s1 where rr: "route_response env response s = (r', s1)"
    by (cases "route_response env response s")
  have "distinct (message_ids (work_request_map s1) @ R)"
    using route_response_fresh [of s R env response] assms ResultResponse rr by simp
  then show ?thesis
    using ResultResponse rr by (simp add: process_result_def add_receive_def)
next
  case (ResultTuple q mid)
  obtain w s1 where i: "initiate_work_for_message env mid s = (w, s1)"
    by (cases "initiate_work_for_message env mid s")
  have m: "work_request_map s1 = work_request_map s"
    using initiate_work_for_message_map [of env mid s] i by simp
  have d: "distinct (message_ids (work_request_map s) @ mid # R)"
    using assms ResultTuple by simp
  show ?thesis
  proof (cases w)
    case (Inl e)
    then show ?thesis
      using ResultTuple i m d by (simp add: process_result_def)
  next
    case (Inr wr)
    have "distinct (message_ids (AList.update (work_request_id wr)
            \<lparr>work_request = wr, message_id = mid,
             start_time = utcnow env (trace s1), num_responses = 0\<rparr>
            (work_request_map s)) @ R)"
      using d message_ids_update_fresh
              [of "work_request_map s"
                  "\<lparr>work_request = wr, message_id = mid,
                    start_time = utcnow env (trace s1), num_responses = 0\<rparr>" R
                  "work_request_id wr"]
      by simp
    then show ?thesis
      using ResultTuple i m Inr by (simp add: process_result_def)
  qed
qed

lemma process_done_fresh:
  "distinct (message_ids (work_request_map s) @ concat (map delivered_result rs) @ R) \<Longrightarrow>
     distinct (message_ids (work_request_map (snd (process_done env cfg rs s))) @ R)"
proof (induction rs arbitrary: s)
  case Nil
  then show ?case by simp
next
  case (Cons r rs)
  obtain x s1 where p: "process_result env cfg r s = (x, s1)"
    by (cases "process_result env cfg r s")
  have d1: "distinct (message_ids (work_request_map s1) @ concat (map delivered_result rs) @ R)"
    using process_result_fresh
            [of s r "concat (map delivered_result rs) @ R" env cfg] Cons.prems p
    by simp
  show ?case
  proof (cases x)
    case None
    then show ?thesis using Cons.IH [OF d1] p by simp
  next
    case (Some e)
    then show ?thesis using distinct_drop_middle [OF d1] p by simp
  qed
qed

lemma delivered_cycle_results:
  "concat (map (\<lambda>(f, r). delivered_result r) done) = concat (map delivered_result (map snd done))"
  by (induction "done") auto

lemma loop_body_fresh:
  assumes "distinct (message_ids (work_request_map s) @ delivered_cycle c @ R)"
  shows "distinct (message_ids (work_request_map (snd (loop_body env cfg c s))) @ R)"
proof (cases c)
  case ClientDisconnected
  then show ?thesis using assms by (simp add: loop_body_def)
next
  case (WaitRaises e)
  then show ?thesis using assms by (simp add: loop_body_def)
next
  case (WaitReturns "done")
  let ?s0 = "s\<lparr>pending_futures := fold remove1 (map fst done) (pending_futures s)\<rparr>"
  obtain x s1 where p: "process_done env cfg (map snd done) ?s0 = (x, s1)"
    by (cases "process_done env cfg (map snd done) ?s0")
  have "distinct (message_ids (work_request_map ?s0)
          @ concat (map delivered_result (map snd done)) @ R)"
    using assms WaitReturns by (simp add: delivered_cycle_results)
  from process_done_fresh [OF this, of env cfg]
  have d1: "distinct (message_ids (work_request_map s1) @ R)"
    using p by simp
  have d0: "distinct (message_ids (work_request_map s) @ R)"
    using distinct_drop_middle [OF assms] .
  show ?thesis
    using WaitReturns p d1 d0 by (cases x) (simp_all add: loop_body_def)
qed

lemma loop_fresh:
  "distinct (message_ids (work_request_map s) @ delivered cs @ R) \<Longrightarrow>
     distinct (message_ids (work_request_map (snd (loop env cfg cs s))) @ R)"
proof (induction cs arbitrary: s)
  case Nil
  then show ?case by (simp add: delivered_def)
next
  case (Cons c cs)
  obtain x s1 where b: "loop_body env cfg c s = (x, s1)"
    by (cases "loop_body env cfg c s")
  have d1: "distinct (message_ids (work_request_map s1) @ delivered cs @ R)"
    using loop_body_fresh [of s c "delivered cs @ R" env cfg] Cons.prems b
    by (simp add: delivered_def)
  show ?case
  proof (cases x)
    case None
    then show ?thesis using Cons.IH [OF d1] b by simp
  next
    case (Some e)
    then show ?thesis using distinct_drop_middle [OF d1] b by simp
  qed
qed

lemma try_block_fresh:
  assumes "distinct (delivered cs)"
  shows "distinct (message_ids (work_request_map (snd (try_block env cfg cs initial_state))))"
proof -
  have l: "distinct (message_ids (work_request_map (snd (loop env cfg cs s))))"
    if "work_request_map s = []" for s
    using loop_fresh [of s cs "[]" env cfg] assms that by (simp add: message_ids_def)
  have n: "message_ids [] = []"
    by (simp add: message_ids_def)
  show ?thesis
    by (auto simp: try_block_def perform_def initial_state_def n
        add_receive_def add_dequeue_def split: option.splits intro!: l)
qed

lemma best_effort_map [simp]:
  "work_request_map (snd (best_effort env c s)) = work_request_map s"
  by (auto simp: best_effort_def perform_def split: option.splits)

lemma best_effort_pending [simp]:
  "pending_futures (snd (best_effort env c s)) = pending_futures s"
  by (auto simp: best_effort_def perform_def split: option.splits)

lemma cancel_all_map [simp]:
  "work_request_map (snd (cancel_all env fs s)) = work_request_map s"
proof (induction fs arbitrary: s)
  case Nil
  show ?case by simp
next
  case (Cons f fs)
  obtain x s1 where b: "best_effort env (Cancel f) s = (x, s1)"
    by (cases "best_effort env (Cancel f) s")
  have "work_request_map s1 = work_request_map s"
    using best_effort_map [of env "Cancel f" s] b by simp
  then show ?case
    using Cons.IH [of s1] b by (cases x) simp_all
qed

lemma finally_clause_map [simp]:
  "work_request_map (snd (finally_clause env s)) = work_request_map s"
proof -
  obtain x1 s1 where a: "best_effort env RedisClose s = (x1, s1)"
    by (cases "best_effort env RedisClose s")
  obtain x2 s2 where b: "best_effort env DeleteWorkerSession s1 = (x2, s2)"
    by (cases "best_effort env DeleteWorkerSession s1")
  obtain x3 s3 where c: "cancel_all env (pending_futures s2) s2 = (x3, s3)"
    by (cases "cancel_all env (pending_futures s2) s2")
  have "work_request_map s1 = work_request_map s"
    using best_effort_map [of env RedisClose s] a by simp
  moreover have "work_request_map s2 = work_request_map s1"
    using best_effort_map [of env DeleteWorkerSession s1] b by simp
  moreover have "work_request_map s3 = work_request_map s2"
    using cancel_all_map [of env "pending_futures s2" s2] c by simp
  ultimately show ?thesis
    using a b c by (cases x1; cases x2; cases x3) (simp_all add: finally_clause_def)
qed

lemma except_finally_map [simp]:
  "work_request_map (snd (except_finally env e s)) = work_request_map s"
proof -
  obtain x s1 where r: "recover env (Some e) (map snd (work_request_map s)) s = (x, s1)"
    by (cases "recover env (Some e) (map snd (work_request_map s)) s")
  have m: "work_request_map s1 = work_request_map s"
    using recover_frame [of env "Some e" "map snd (work_request_map s)" s] r by simp
  obtain y s2 where f: "finally_clause env s1 = (y, s2)"
    by (cases "finally_clause env s1")
  have m2: "work_request_map s2 = work_request_map s1"
    using finally_clause_map [of env s1] f by simp
  obtain y' s2' where f': "finally_clause env s = (y', s2')"
    by (cases "finally_clause env s")
  have m2': "work_request_map s2' = work_request_map s"
    using finally_clause_map [of env s] f' by simp
  show ?thesis
    using r m f m2 f' m2'
    by (cases x; cases y; cases y') (simp_all add: except_finally_def)
qed

lemma handle_worker_map:
  "work_request_map (snd (handle_worker env cfg cs)) =
     work_request_map (snd (try_block env cfg cs initial_state))"
proof -
  obtain x s where t: "try_block env cfg cs initial_state = (x, s)"
    by (cases "try_block env cfg cs initial_state")
  show ?thesis
    using t by (cases x) (simp_all add: handle_worker_def)
qed

lemma delivered_take:
  "distinct (delivered cs) \<Longrightarrow> distinct (delivered (take n cs))"
proof -
  assume d: "distinct (delivered cs)"
  have "delivered cs = delivered (take n cs) @ delivered (drop n cs)"
    unfolding delivered_def by (metis append_take_drop_id concat_append map_append)
  then show ?thesis using d by simp
qed

text \<open>
  C7, as amended. If the queue hands no message id to the connection twice, then
  after any number of cycles, and after termination, two entries of the ledger under
  different request ids hold different message ids.
\<close>

theorem ledger_message_ids_unique:
  assumes "distinct (delivered cycles)"
  shows "\<forall>k1 k2 c1 c2.
           k1 \<noteq> k2
           \<and> map_of (work_request_map (snd (handle_worker env cfg (take n cycles)))) k1 = Some c1
           \<and> map_of (work_request_map (snd (handle_worker env cfg (take n cycles)))) k2 = Some c2
           \<longrightarrow> message_id c1 \<noteq> message_id c2"
proof (intro allI impI, elim conjE)
  fix k1 k2 c1 c2
  let ?m = "work_request_map (snd (handle_worker env cfg (take n cycles)))"
  assume ne: "k1 \<noteq> k2" and a: "map_of ?m k1 = Some c1" and b: "map_of ?m k2 = Some c2"
  have "distinct (message_ids ?m)"
    using try_block_fresh [OF delivered_take [OF assms, of n], of env cfg]
    by (simp add: handle_worker_map)
  then have inj: "inj_on (\<lambda>(k, c). message_id c) (set ?m)"
    by (simp add: message_ids_def distinct_map)
  have "(k1, c1) \<in> set ?m" and "(k2, c2) \<in> set ?m"
    using a b by (auto dest: map_of_SomeD)
  then show "message_id c1 \<noteq> message_id c2"
    using inj ne by (auto simp: inj_on_def)
qed

theorem ledger_message_ids_unique_witness:
  "distinct (delivered
     [WaitReturns [(Dequeue, ResultTuple ''work'' ''m1'')],
      WaitReturns [(Dequeue, ResultTuple ''work'' ''m2'')]])
   \<and> map (\<lambda>(k, c). (k, message_id c))
       (work_request_map (snd (handle_worker quiet_env \<lparr>max_parallel_requests = 2\<rparr>
          (take 2 [WaitReturns [(Dequeue, ResultTuple ''work'' ''m1'')],
                   WaitReturns [(Dequeue, ResultTuple ''work'' ''m2'')]]))))
     = [(''rrrr'', ''m1''), (''rrrrrrr'', ''m2'')]"
proof -
  have d: "distinct (delivered
     [WaitReturns [(Dequeue, ResultTuple ''work'' ''m1'')],
      WaitReturns [(Dequeue, ResultTuple ''work'' ''m2'')]])"
    by (simp add: delivered_def)
  have t: "take 2 [WaitReturns [(Dequeue, ResultTuple ''work'' ''m1'')],
                   WaitReturns [(Dequeue, ResultTuple ''work'' ''m2'')]]
           = [WaitReturns [(Dequeue, ResultTuple ''work'' ''m1'')],
              WaitReturns [(Dequeue, ResultTuple ''work'' ''m2'')]]"
    by simp
  show ?thesis
    using ledger_message_ids_unique [OF d, of quiet_env "\<lparr>max_parallel_requests = 2\<rparr>" 2] d
    unfolding t
    by (simp add: handle_worker_def try_block_def perform_def quiet_env_def
        initial_state_def add_dequeue_def add_receive_def loop_body_def process_result_def
        initiate_work_for_message_def)
qed

text \<open>
  The claim as stated fails when the queue hands out a message id that is still in
  flight on the connection: nothing in the dispatch looks for the message id in the
  ledger, and the two work requests get entries of their own.
\<close>

theorem same_message_twice_counterexample:
  "map (\<lambda>(k, c). (k, message_id c))
     (work_request_map (snd (handle_worker quiet_env \<lparr>max_parallel_requests = 2\<rparr>
        [WaitReturns [(Dequeue, ResultTuple ''work'' ''m1'')],
         WaitReturns [(Dequeue, ResultTuple ''work'' ''m1'')]])))
   = [(''rrrr'', ''m1''), (''rrrrrrr'', ''m1'')]"
  by (simp add: handle_worker_def try_block_def perform_def quiet_env_def
      initial_state_def add_dequeue_def add_receive_def loop_body_def process_result_def
      initiate_work_for_message_def)

subsection \<open>Recovery and cleanup, call by call\<close>











subsection \<open>Cleanup\<close>







subsection \<open>\<^verbatim>\<open>None\<close> from the queue\<close>





end
